theory Spec2Isabelle
  imports Complex_Main "HOL-Library.AList"
begin

section \<open>Python values used by the command bus\<close>

text \<open>
  The development follows \<^verbatim>\<open>MCPserve/commands/MCPServerCommand.py\<close>.
  Exceptions are values; each carries the text that \<^verbatim>\<open>str(e)\<close> yields.
\<close>

datatype exn =
    JSONDecodeError string
  | UnicodeDecodeError string
  | RecursionError string
  | AttributeError string
  | IndexError string
  | OSError string
  | HostError string

fun str_exn :: "exn \<Rightarrow> string" where
  "str_exn (JSONDecodeError m) = m"
| "str_exn (UnicodeDecodeError m) = m"
| "str_exn (RecursionError m) = m"
| "str_exn (AttributeError m) = m"
| "str_exn (IndexError m) = m"
| "str_exn (OSError m) = m"
| "str_exn (HostError m) = m"

fun is_JSONDecodeError :: "exn \<Rightarrow> bool" where
  "is_JSONDecodeError (JSONDecodeError m) = True"
| "is_JSONDecodeError e = False"

text \<open>
  A decoded JSON document, as \<^verbatim>\<open>json.load\<close> returns it. An object is a
  Python dict, kept as an association list read with \<open>map_of\<close>. The program
  never computes with a float, so one is carried as its literal.
\<close>

datatype json =
    JNull
  | JBool bool
  | JInt int
  | JFloat string
  | JStr string
  | JArr "json list"
  | JObj "(string \<times> json) list"

fun type_name :: "json \<Rightarrow> string" where
  "type_name JNull = ''NoneType''"
| "type_name (JBool b) = ''bool''"
| "type_name (JInt i) = ''int''"
| "type_name (JFloat f) = ''float''"
| "type_name (JStr s) = ''str''"
| "type_name (JArr xs) = ''list''"
| "type_name (JObj kvs) = ''dict''"

text \<open>\<^verbatim>\<open>d.get(key, default)\<close>: only a dict has the method.\<close>

fun py_get :: "json \<Rightarrow> string \<Rightarrow> json \<Rightarrow> exn + json" where
  "py_get (JObj kvs) key dflt = Inr (case map_of kvs key of None \<Rightarrow> dflt | Some v \<Rightarrow> v)"
| "py_get v key dflt =
     Inl (AttributeError ([CHR 0x27] @ type_name v @ [CHR 0x27] @ '' object has no attribute '' @
                          [CHR 0x27] @ ''get'' @ [CHR 0x27]))"

text \<open>
  \<^verbatim>\<open>str(v)\<close>, as an f-string applies it: a string is itself, every other
  decoded value prints as its \<^verbatim>\<open>repr\<close>, a built-in taken as a parameter.
\<close>

fun py_str :: "(json \<Rightarrow> string) \<Rightarrow> json \<Rightarrow> string" where
  "py_str rp (JStr s) = s"
| "py_str rp v = rp v"

section \<open>File names of the protocol\<close>

text \<open>\<^verbatim>\<open>s.split(c)\<close> for a one-character separator.\<close>

fun split_on :: "char \<Rightarrow> string \<Rightarrow> string list" where
  "split_on c [] = [[]]"
| "split_on c (x # xs) =
     (if x = c then [] # split_on c xs
      else (case split_on c xs of [] \<Rightarrow> [[x]] | y # ys \<Rightarrow> (x # y) # ys))"

definition index :: "'a list \<Rightarrow> nat \<Rightarrow> exn + 'a" where
  "index xs i = (if i < length xs then Inr (xs ! i) else Inl (IndexError ''list index out of range''))"

definition startswith :: "string \<Rightarrow> string \<Rightarrow> bool" where
  "startswith s p = (take (length p) s = p)"

definition endswith :: "string \<Rightarrow> string \<Rightarrow> bool" where
  "endswith s p = (length p \<le> length s \<and> drop (length s - length p) s = p)"

text \<open>Line 592: \<^verbatim>\<open>command_id = file.split("_")[1].split(".")[0]\<close>.\<close>

definition command_id :: "string \<Rightarrow> exn + string" where
  "command_id file =
     (case index (split_on (CHR ''_'') file) 1 of
        Inl e \<Rightarrow> Inl e
      | Inr s \<Rightarrow> index (split_on (CHR ''.'') s) 0)"

definition processed_name :: "string \<Rightarrow> string" where
  "processed_name cid = ''processed_command_'' @ cid @ ''.json''"

definition response_name :: "string \<Rightarrow> string" where
  "response_name cid = ''response_'' @ cid @ ''.json''"

definition command_name :: "string \<Rightarrow> string" where
  "command_name i = ''command_'' @ i @ ''.json''"

text \<open>The part of an id that the extraction keeps.\<close>

definition id_segment :: "string \<Rightarrow> string" where
  "id_segment i = takeWhile (\<lambda>c. c \<noteq> CHR ''_'' \<and> c \<noteq> CHR ''.'') i"

section \<open>The communication directory, the host and the environment\<close>

text \<open>
  A path is a directory and a name, as \<^verbatim>\<open>os.path.join(comm_dir, name)\<close> builds
  it. The world holds the files, the paths that cannot be opened for writing
  (\<^verbatim>\<open>open\<close> raises \<^verbatim>\<open>OSError\<close> there), and the trace of the effects
  performed so far.
\<close>

type_synonym path = "string \<times> string"

datatype host_call =
    CreateMessageBoxCommand json
  | CreateNewSketch json
  | CreateParameter json json json json
  | ActiveDocumentInfo
  | DesignStructure
  | Parameters

datatype event =
    Wrote path json
  | Appended path string
  | Renamed path path
  | Called host_call

record world =
  files :: "(path \<times> string) list"
  unwritable :: "path list"
  trace :: "event list"

text \<open>
  What the module calls but does not define. \<open>json_loads\<close> is the outcome of
  reading and decoding a file that holds the given bytes
  (\<^verbatim>\<open>with open(command_file, "r") as f: json.load(f)\<close>): the decoded value, or
  the exception raised, a \<^verbatim>\<open>JSONDecodeError\<close> for text that is not JSON, a
  \<^verbatim>\<open>UnicodeDecodeError\<close> for bytes that are not text, a \<^verbatim>\<open>RecursionError\<close>
  for nesting too deep. Then \<^verbatim>\<open>json.dump\<close>, \<^verbatim>\<open>repr\<close>, the Fusion API behind each
  handler (its outcome may depend on the effects so far), the clock and the
  resolved workspace communication directory.
\<close>

record env =
  json_loads :: "string \<Rightarrow> exn + json"
  json_dumps :: "json \<Rightarrow> string"
  repr :: "json \<Rightarrow> string"
  host :: "event list \<Rightarrow> host_call \<Rightarrow> exn + json"
  now :: int
  ctime :: string
  workspace_comm_dir :: string

text \<open>A statement either returns a value or raises; the world survives both.\<close>

type_synonym 'a io = "world \<Rightarrow> (exn + 'a) \<times> world"

definition io_return :: "'a \<Rightarrow> 'a io" where
  "io_return x = (\<lambda>w. (Inr x, w))"

definition io_lift :: "exn + 'a \<Rightarrow> 'a io" where
  "io_lift r = (\<lambda>w. (r, w))"

definition io_bind :: "'a io \<Rightarrow> ('a \<Rightarrow> 'b io) \<Rightarrow> 'b io" where
  "io_bind m f = (\<lambda>w. case m w of (Inl e, w') \<Rightarrow> (Inl e, w') | (Inr x, w') \<Rightarrow> f x w')"

text \<open>\<^verbatim>\<open>try: m except C as e: h\<close>, with \<open>P\<close> the test for class \<open>C\<close>.\<close>

definition io_except :: "(exn \<Rightarrow> bool) \<Rightarrow> 'a io \<Rightarrow> (exn \<Rightarrow> 'a io) \<Rightarrow> 'a io" where
  "io_except P m h =
     (\<lambda>w. case m w of
             (Inl e, w') \<Rightarrow> if P e then h e w' else (Inl e, w')
           | (Inr x, w') \<Rightarrow> (Inr x, w'))"

definition path_exists :: "world \<Rightarrow> path \<Rightarrow> bool" where
  "path_exists w p = (map_of (files w) p \<noteq> None)"

definition listdir :: "world \<Rightarrow> string \<Rightarrow> string list" where
  "listdir w d = map (\<lambda>(p, t). snd p) (filter (\<lambda>(p, t). fst p = d) (files w))"

definition read_file :: "path \<Rightarrow> string io" where
  "read_file p =
     (\<lambda>w. case map_of (files w) p of
             None \<Rightarrow> (Inl (OSError ''No such file or directory''), w)
           | Some t \<Rightarrow> (Inr t, w))"

definition write_json :: "env \<Rightarrow> path \<Rightarrow> json \<Rightarrow> unit io" where
  "write_json E p doc =
     (\<lambda>w. if p \<in> set (unwritable w) then (Inl (OSError ''Permission denied''), w)
           else (Inr (), w\<lparr>files := AList.update p (json_dumps E doc) (files w),
                            trace := trace w @ [Wrote p doc]\<rparr>))"

definition append_file :: "path \<Rightarrow> string \<Rightarrow> unit io" where
  "append_file p t =
     (\<lambda>w. if p \<in> set (unwritable w) then (Inl (OSError ''Permission denied''), w)
           else (Inr (), w\<lparr>files := AList.update p
                                       ((case map_of (files w) p of None \<Rightarrow> [] | Some old \<Rightarrow> old) @ t)
                                       (files w),
                            trace := trace w @ [Appended p t]\<rparr>))"

text \<open>\<^verbatim>\<open>os.rename(src, dst)\<close>: one step that moves the content.\<close>

definition os_rename :: "path \<Rightarrow> path \<Rightarrow> unit io" where
  "os_rename src dst =
     (\<lambda>w. case map_of (files w) src of
             None \<Rightarrow> (Inl (OSError ''No such file or directory''), w)
           | Some t \<Rightarrow>
               if dst \<in> set (unwritable w) then (Inl (OSError ''Permission denied''), w)
               else (Inr (), w\<lparr>files := AList.update dst t (AList.delete src (files w)),
                                trace := trace w @ [Renamed src dst]\<rparr>))"

definition call_host :: "env \<Rightarrow> host_call \<Rightarrow> json io" where
  "call_host E c = (\<lambda>w. (host E (trace w) c, w\<lparr>trace := trace w @ [Called c]\<rparr>))"

text \<open>Decimal digits of a natural number, for \<^verbatim>\<open>int(time.time()) % 10000\<close>.\<close>

fun str_nat :: "nat \<Rightarrow> string" where
  "str_nat n =
     (if n < 10 then [char_of (48 + n)]
      else str_nat (n div 10) @ [char_of (48 + n mod 10)])"

declare str_nat.simps [simp del]

section \<open>The poller's dispatch\<close>

text \<open>
  Lines 613 to 776 of \<^verbatim>\<open>file_monitor_thread\<close>: the chain of comparisons on
  \<^verbatim>\<open>command\<close> that computes \<^verbatim>\<open>result\<close>. In the \<^verbatim>\<open>message_box\<close> branch the
  assignment of \<^verbatim>\<open>debug_file\<close> (line 644) is read at the indentation of the
  statements around it. The log lines use one reading of the clock.
\<close>

abbreviation (input) nl :: string where
  "nl \<equiv> [CHR 0x0A]"

definition error_doc :: "string \<Rightarrow> json" where
  "error_doc m = JObj [(''error'', JStr m)]"

definition prompt_doc :: "string \<Rightarrow> string \<Rightarrow> json" where
  "prompt_doc sys usr =
     JObj [(''messages'',
            JArr [JObj [(''role'', JStr ''system''), (''content'', JStr sys)],
                  JObj [(''role'', JStr ''user''), (''content'', JStr usr)]])]"

definition read_resource :: "env \<Rightarrow> json \<Rightarrow> json io" where
  "read_resource E params =
     io_bind (io_lift (py_get params ''uri'' (JStr []))) (\<lambda>uri.
       if uri = JStr ''fusion://active-document-info'' then
         io_except (\<lambda>e. True) (call_host E ActiveDocumentInfo) (\<lambda>e. io_return (error_doc (str_exn e)))
       else if uri = JStr ''fusion://design-structure'' then
         io_except (\<lambda>e. True) (call_host E DesignStructure) (\<lambda>e. io_return (error_doc (str_exn e)))
       else if uri = JStr ''fusion://parameters'' then
         io_except (\<lambda>e. True) (call_host E Parameters) (\<lambda>e. io_return (error_doc (str_exn e)))
       else io_return (error_doc (''Unknown resource URI: '' @ py_str (repr E) uri)))"

definition get_prompt :: "env \<Rightarrow> json \<Rightarrow> json io" where
  "get_prompt E params =
     io_bind (io_lift (py_get params ''name'' (JStr []))) (\<lambda>prompt_name.
     io_bind (io_lift (py_get params ''args'' (JObj []))) (\<lambda>prompt_args.
       if prompt_name = JStr ''create_sketch_prompt'' then
         io_bind (io_lift (py_get prompt_args ''description'' (JStr ''Default sketch''))) (\<lambda>description.
           io_return (prompt_doc
             (''You are an expert in Fusion 360 CAD modeling. Your task is to help the user create sketches based on their descriptions.''
                @ nl @ nl @ ''Be very specific about what planes to use and what sketch entities to create.'')
             (''I want to create a sketch with these requirements: '' @ py_str (repr E) description
                @ nl @ nl @ ''Please provide step-by-step instructions for creating this sketch in Fusion 360.'')))
       else if prompt_name = JStr ''parameter_setup_prompt'' then
         io_bind (io_lift (py_get prompt_args ''description'' (JStr ''Default parameters''))) (\<lambda>description.
           io_return (prompt_doc
             (''You are an expert in Fusion 360 parametric design. Your task is to help the user set up parameters for their design.''
                @ nl @ nl @ ''Suggest appropriate parameters, their values, units, and purposes based on the user''
                @ [CHR 0x27] @ ''s description.'')
             (''I want to set up parameters for: '' @ py_str (repr E) description
                @ nl @ nl @ ''What parameters should I create, and what values, units, and comments should they have?'')))
       else io_return (error_doc (''Unknown prompt: '' @ py_str (repr E) prompt_name))))"

definition message_box :: "env \<Rightarrow> json \<Rightarrow> json io" where
  "message_box E params =
     io_bind (io_lift (py_get params ''message'' (JStr []))) (\<lambda>message.
       let debug_file = (workspace_comm_dir E, ''command_message_debug.txt'') in
       io_bind (append_file debug_file
                  (''Processing message_box command with: '' @ py_str (repr E) message
                     @ '' at '' @ ctime E @ nl)) (\<lambda>_.
       io_bind (io_except (\<lambda>e. True)
                  (io_bind (call_host E (CreateMessageBoxCommand message)) (\<lambda>_.
                     append_file debug_file (''Command-based display triggered at '' @ ctime E @ nl)))
                  (\<lambda>e. append_file debug_file
                          (''Command-based display attempt failed: '' @ str_exn e @ nl))) (\<lambda>_.
       io_return (JStr ''Message processed successfully''))))"

definition create_parameter :: "env \<Rightarrow> json \<Rightarrow> json io" where
  "create_parameter E params =
     io_bind (io_lift (py_get params ''name'' (JStr (''Param_'' @ str_nat (nat (now E mod 10000)))))) (\<lambda>name.
     io_bind (io_lift (py_get params ''expression'' (JStr ''10''))) (\<lambda>expression.
     io_bind (io_lift (py_get params ''unit'' (JStr ''mm''))) (\<lambda>unit.
     io_bind (io_lift (py_get params ''comment'' (JStr []))) (\<lambda>comment.
       call_host E (CreateParameter name expression unit comment)))))"

definition tool_entry :: "string \<Rightarrow> string \<Rightarrow> json" where
  "tool_entry n d = JObj [(''name'', JStr n), (''description'', JStr d)]"

definition handle_command :: "env \<Rightarrow> json \<Rightarrow> json \<Rightarrow> json io" where
  "handle_command E command params =
     (if command = JStr ''list_resources'' then
        io_return (JArr [JStr ''fusion://active-document-info'',
                         JStr ''fusion://design-structure'',
                         JStr ''fusion://parameters''])
      else if command = JStr ''list_tools'' then
        io_return (JArr [tool_entry ''message_box'' ''Display a message box in Fusion 360'',
                         tool_entry ''create_new_sketch'' ''Create a new sketch on the specified plane'',
                         tool_entry ''create_parameter'' ''Create a new parameter in the active design''])
      else if command = JStr ''list_prompts'' then
        io_return (JArr [tool_entry ''create_sketch_prompt''
                           ''Create a prompt for creating a sketch based on a description'',
                         tool_entry ''parameter_setup_prompt''
                           ''Create a prompt for setting up parameters based on a description''])
      else if command = JStr ''message_box'' then message_box E params
      else if command = JStr ''create_new_sketch'' then
        io_bind (io_lift (py_get params ''plane_name'' (JStr ''XY''))) (\<lambda>plane_name.
          call_host E (CreateNewSketch plane_name))
      else if command = JStr ''create_parameter'' then create_parameter E params
      else if command = JStr ''read_resource'' then read_resource E params
      else if command = JStr ''get_prompt'' then get_prompt E params
      else io_return (JStr (''Unknown command: '' @ py_str (repr E) command)))"

section \<open>Handling one command file\<close>

text \<open>
  Lines 605 to 783, the body of the inner \<^verbatim>\<open>try\<close> statement: read and
  decode the file, which may raise any of the exceptions of \<open>json_loads\<close>,
  dispatch, write the response, rename the command file.
\<close>

definition dispatch_body :: "env \<Rightarrow> path \<Rightarrow> path \<Rightarrow> path \<Rightarrow> unit io" where
  "dispatch_body E command_file processed_file response_file =
     io_bind (read_file command_file) (\<lambda>text.
     io_bind (io_lift (json_loads E text)) (\<lambda>command_data.
     io_bind (io_lift (py_get command_data ''command'' JNull)) (\<lambda>command.
     io_bind (io_lift (py_get command_data ''params'' (JObj []))) (\<lambda>params.
     io_bind (handle_command E command params) (\<lambda>result.
     io_bind (write_json E response_file (JObj [(''result'', result)])) (\<lambda>_.
     os_rename command_file processed_file))))))"

text \<open>
  Lines 604 to 788, the inner \<^verbatim>\<open>try\<close> statement: a \<^verbatim>\<open>JSONDecodeError\<close> is
  answered with an error response.
\<close>

definition dispatch_file :: "env \<Rightarrow> path \<Rightarrow> path \<Rightarrow> path \<Rightarrow> unit io" where
  "dispatch_file E command_file processed_file response_file =
     io_except is_JSONDecodeError
       (dispatch_body E command_file processed_file response_file)
       (\<lambda>e. write_json E response_file (error_doc (''Invalid JSON format: '' @ str_exn e)))"

text \<open>
  Lines 589 to 798, the body of the loop for a file that passed the test on
  its name: extract the id, skip when the tombstone or the response exists,
  otherwise dispatch; any exception is answered with an error response,
  whose own failure is passed over. The handler names \<^verbatim>\<open>command_id\<close>, which
  is bound whenever the extraction has returned.
\<close>

definition process_command_file :: "env \<Rightarrow> string \<Rightarrow> string \<Rightarrow> unit io" where
  "process_command_file E comm_dir file =
     io_except (\<lambda>e. True)
       (io_bind (io_lift (command_id file)) (\<lambda>cid.
          (\<lambda>w. if path_exists w (comm_dir, processed_name cid) \<or>
                  path_exists w (comm_dir, response_name cid)
                then (Inr (), w)
                else dispatch_file E (comm_dir, file) (comm_dir, processed_name cid)
                       (comm_dir, response_name cid) w)))
       (\<lambda>e. case command_id file of
               Inl _ \<Rightarrow> io_return ()
             | Inr cid \<Rightarrow>
                 io_except (\<lambda>e'. True)
                   (write_json E (comm_dir, response_name cid) (error_doc (str_exn e)))
                   (\<lambda>e'. io_return ()))"

text \<open>Lines 587 and 588: the loop over the listing and the test on the name.\<close>

fun process_files :: "env \<Rightarrow> string \<Rightarrow> string list \<Rightarrow> unit io" where
  "process_files E comm_dir [] = io_return ()"
| "process_files E comm_dir (file # rest) =
     io_bind (if startswith file ''command_'' \<and> endswith file ''.json''
              then process_command_file E comm_dir file else io_return ())
       (\<lambda>_. process_files E comm_dir rest)"

definition scan_commands :: "env \<Rightarrow> string \<Rightarrow> unit io" where
  "scan_commands E comm_dir = (\<lambda>w. process_files E comm_dir (listdir w comm_dir) w)"

section \<open>The workspace resolver\<close>

text \<open>
  \<^verbatim>\<open>get_workspace_paths\<close>, lines 17 to 38. The installation supplies the
  value of \<^verbatim>\<open>FUSION_MCP_WORKSPACE\<close>, the add-in directory
  (\<^verbatim>\<open>os.path.dirname(os.path.dirname(__file__))\<close>) and \<^verbatim>\<open>os.path.abspath\<close>.
  The state holds the directories that exist and those that \<^verbatim>\<open>os.makedirs\<close>
  cannot create; the parents \<^verbatim>\<open>os.makedirs\<close> creates on its way are not
  tracked.
\<close>

record install =
  getenv_workspace :: "string option"
  addon_path :: string
  abspath :: "string \<Rightarrow> string"

record dirs_state =
  dirs :: "string list"
  uncreatable :: "string list"

definition isdir :: "dirs_state \<Rightarrow> string \<Rightarrow> bool" where
  "isdir s p = (p \<in> set (dirs s))"

text \<open>\<^verbatim>\<open>os.path.join(a, b)\<close> on POSIX paths.\<close>

definition path_join :: "string \<Rightarrow> string \<Rightarrow> string" where
  "path_join a b =
     (if startswith b ''/'' then b
      else if a = [] \<or> last a = CHR ''/'' then a @ b
      else a @ ''/'' @ b)"

text \<open>\<^verbatim>\<open>os.makedirs(p, exist_ok=True)\<close>.\<close>

definition makedirs :: "string \<Rightarrow> dirs_state \<Rightarrow> (exn + unit) \<times> dirs_state" where
  "makedirs p s =
     (if p \<in> set (dirs s) then (Inr (), s)
      else if p \<in> set (uncreatable s) then (Inl (OSError ''Permission denied''), s)
      else (Inr (), s\<lparr>dirs := p # dirs s\<rparr>))"

text \<open>Lines 20 to 27: the override, then the parent of the add-in, then the add-in.\<close>

definition derived_workspace :: "install \<Rightarrow> dirs_state \<Rightarrow> string" where
  "derived_workspace I s =
     (let candidate = abspath I (path_join (addon_path I) ''..'')
      in if isdir s candidate then candidate else addon_path I)"

definition workspace_choice :: "install \<Rightarrow> dirs_state \<Rightarrow> string" where
  "workspace_choice I s =
     (case getenv_workspace I of
        None \<Rightarrow> derived_workspace I s
      | Some env_path \<Rightarrow>
          if env_path \<noteq> [] \<and> isdir s env_path then abspath I env_path
          else derived_workspace I s)"

definition get_workspace_paths :: "install \<Rightarrow> dirs_state \<Rightarrow> (exn + string \<times> string) \<times> dirs_state" where
  "get_workspace_paths I s =
     (let workspace_path = workspace_choice I s;
          workspace_comm_dir = path_join workspace_path ''mcp_comm''
      in case makedirs workspace_comm_dir s of
           (Inr u, s') \<Rightarrow> (Inr (workspace_path, workspace_comm_dir), s')
         | (Inl e, s') \<Rightarrow>
             (let workspace_path = addon_path I;
                  workspace_comm_dir = path_join (addon_path I) ''mcp_comm''
              in case makedirs workspace_comm_dir s' of
                   (Inr u, s'') \<Rightarrow> (Inr (workspace_path, workspace_comm_dir), s'')
                 | (Inl e', s'') \<Rightarrow> (Inl e', s'')))"

section \<open>The server lifecycle\<close>

text \<open>
  The module globals \<^verbatim>\<open>server_running\<close> and \<^verbatim>\<open>server_thread\<close>, the threads
  of the process with the function each runs, the threads still alive, the
  calls of \<^verbatim>\<open>join\<close> made so far with their timeouts in seconds, the time
  spent blocked in them, and the texts shown or logged (\<open>shown\<close>).
\<close>

datatype target = ServerThreadFunc | UvicornThread | FileMonitorThread

record proc =
  server_running :: bool
  server_thread :: "nat option"
  threads :: "(nat \<times> target) list"
  alive :: "nat list"
  joins :: "(nat \<times> real) list"
  waited :: real
  shown :: "string list"

text \<open>
  \<^verbatim>\<open>t.join(timeout)\<close> blocks until the thread ends or the timeout passes.
  \<open>sched t\<close> is the time thread \<open>t\<close> still needs, \<open>None\<close> when it never ends.
\<close>

definition join :: "(nat \<Rightarrow> real option) \<Rightarrow> nat \<Rightarrow> real \<Rightarrow> proc \<Rightarrow> proc" where
  "join sched t timeout p =
     (case sched t of
        None \<Rightarrow> p\<lparr>joins := joins p @ [(t, timeout)], waited := waited p + timeout\<rparr>
      | Some x \<Rightarrow>
          if x \<le> timeout
          then p\<lparr>alive := removeAll t (alive p), joins := joins p @ [(t, timeout)],
                 waited := waited p + x\<rparr>
          else p\<lparr>joins := joins p @ [(t, timeout)], waited := waited p + timeout\<rparr>)"

text \<open>\<^verbatim>\<open>stop_server\<close>, lines 905 to 919.\<close>

definition stop_server :: "(nat \<Rightarrow> real option) \<Rightarrow> proc \<Rightarrow> proc" where
  "stop_server sched p =
     (if \<not> server_running p then p
      else
        (let p1 = p\<lparr>server_running := False\<rparr>
         in case server_thread p1 of
              None \<Rightarrow> p1
            | Some t \<Rightarrow> if t \<in> set (alive p1) then join sched t 2 p1 else p1))"

text \<open>
  \<^verbatim>\<open>server_thread_func\<close>, lines 872 to 884, applied to the outcome of
  \<^verbatim>\<open>run_mcp_server()\<close>. The function has no \<^verbatim>\<open>global\<close> declaration, so
  its assignments to \<^verbatim>\<open>server_running\<close> bind a variable of its own frame,
  returned here as the second component.
\<close>

definition server_thread_func :: "exn + bool \<Rightarrow> proc \<Rightarrow> proc \<times> bool option" where
  "server_thread_func outcome p =
     (case outcome of
        Inr success \<Rightarrow>
          if \<not> success
          then (p\<lparr>shown := shown p @ [''Failed to start MCP server. See error log for details.'']\<rparr>,
                Some False)
          else (p, None)
      | Inl e \<Rightarrow>
          (p\<lparr>shown := shown p @ [''MCP Server Thread Error: '' @ str_exn e]\<rparr>, Some False))"

text \<open>A thread ends when its function has returned.\<close>

definition run_server_thread :: "nat \<Rightarrow> exn + bool \<Rightarrow> proc \<Rightarrow> proc" where
  "run_server_thread t outcome p =
     (let p' = fst (server_thread_func outcome p) in p'\<lparr>alive := removeAll t (alive p')\<rparr>)"

text \<open>
  \<^verbatim>\<open>start_server\<close>, lines 842 to 902. The start supplies: the exception of
  the log prelude (lines 849 to 855) if it raises, the answer of
  \<^verbatim>\<open>check_mcp_installed\<close>, and the outcome of \<^verbatim>\<open>run_mcp_server\<close> if the
  new thread has finished within the one second of \<^verbatim>\<open>time.sleep(1)\<close>.
\<close>

record start =
  prelude :: "exn option"
  mcp_installed :: bool
  early :: "(exn + bool) option"

definition fresh_tid :: "proc \<Rightarrow> nat" where
  "fresh_tid p = Suc (fold max (map fst (threads p)) 0)"

definition start_server :: "start \<Rightarrow> proc \<Rightarrow> (exn + bool) \<times> proc" where
  "start_server X p =
     (case prelude X of
        Some e \<Rightarrow> (Inl e, p)
      | None \<Rightarrow>
          if \<not> mcp_installed X
          then (Inr False,
                p\<lparr>shown := shown p @ [''Required packages are not installed. Please install them with:''
                                        @ nl @ ''pip install '' @ [CHR 0x22] @ ''mcp[cli]'' @ [CHR 0x22] @ '' uvicorn'']\<rparr>)
          else if server_running p \<and> (case server_thread p of None \<Rightarrow> False | Some t \<Rightarrow> t \<in> set (alive p))
          then (Inr True, p)
          else
            (let t = fresh_tid p;
                 p1 = p\<lparr>server_running := True\<rparr>;
                 p2 = p1\<lparr>server_thread := Some t, threads := threads p1 @ [(t, ServerThreadFunc)],
                        alive := alive p1 @ [t]\<rparr>;
                 p3 = (case early X of None \<Rightarrow> p2 | Some outcome \<Rightarrow> run_server_thread t outcome p2)
             in if t \<notin> set (alive p3) then (Inr False, p3\<lparr>server_running := False\<rparr>)
                else (Inr True, p3)))"

section \<open>Notions used to state the properties\<close>

text \<open>The two shapes of a response document, lines 780, 788 and 796.\<close>

definition result_doc :: "json \<Rightarrow> json" where
  "result_doc res = JObj [(''result'', res)]"

fun has_key :: "json \<Rightarrow> string \<Rightarrow> bool" where
  "has_key (JObj kvs) k = (map_of kvs k \<noteq> None)"
| "has_key v k = False"

text \<open>A written document carries exactly one of \<^verbatim>\<open>result\<close> and \<^verbatim>\<open>error\<close>.\<close>

fun response_ok :: "event \<Rightarrow> bool" where
  "response_ok (Wrote p doc) = (has_key doc ''result'' \<noteq> has_key doc ''error'')"
| "response_ok e = True"

text \<open>The effects of a handler: lines appended to a log and calls of the host.\<close>

fun is_quiet :: "event \<Rightarrow> bool" where
  "is_quiet (Appended p t) = True"
| "is_quiet (Called c) = True"
| "is_quiet e = False"

text \<open>
  What a handler may change: nothing but the debug log and the trace, which
  it extends with quiet events.
\<close>

definition frame :: "world \<Rightarrow> world \<Rightarrow> bool" where
  "frame w w' =
     (unwritable w' = unwritable w \<and>
      (\<forall>p. snd p \<noteq> ''command_message_debug.txt'' \<longrightarrow> map_of (files w') p = map_of (files w) p) \<and>
      (\<exists>es. trace w' = trace w @ es \<and> list_all is_quiet es))"

definition framed :: "'a io \<Rightarrow> bool" where
  "framed m = (\<forall>w. frame w (snd (m w)))"

text \<open>
  The events that may close the handling of one command file \<open>cf\<close> with
  tombstone \<open>pf\<close> and response \<open>rf\<close>.
\<close>

definition closing :: "path \<Rightarrow> path \<Rightarrow> path \<Rightarrow> event list \<Rightarrow> bool" where
  "closing cf pf rf ws =
     (ws = [] \<or> (\<exists>m. ws = [Wrote rf (error_doc m)]) \<or>
      (\<exists>res. ws = [Wrote rf (result_doc res)]) \<or>
      (\<exists>res m. ws = [Wrote rf (result_doc res), Wrote rf (error_doc m)]) \<or>
      (\<exists>res. ws = [Wrote rf (result_doc res), Renamed cf pf]))"


text \<open>A producer puts a command file (back) into the directory.\<close>

definition reintroduce :: "path \<Rightarrow> string \<Rightarrow> world \<Rightarrow> world" where
  "reintroduce p t w = w\<lparr>files := AList.update p t (files w)\<rparr>"


text \<open>\<^verbatim>\<open>os.makedirs\<close> succeeds on a path.\<close>

definition can_make :: "dirs_state \<Rightarrow> string \<Rightarrow> bool" where
  "can_make s p = (p \<in> set (dirs s) \<or> p \<notin> set (uncreatable s))"

section \<open>Concrete runs\<close>

text \<open>
  An environment for concrete runs: a decoder that knows two documents, a
  text that is not JSON and two bytes that are not UTF-8, each with the
  answer Python gives, and answers every other text as Python answers the
  empty one; and a host on which a sketch can be created.
\<close>

definition sample_loads :: "string \<Rightarrow> exn + json" where
  \<open>sample_loads s =
     (if s = ''{"command": "create_new_sketch", "params": {}}'' then
        Inr (JObj [(''command'', JStr ''create_new_sketch''), (''params'', JObj [])])
      else if s = ''{"command": "does_not_exist"}'' then
        Inr (JObj [(''command'', JStr ''does_not_exist'')])
      else if s = ''{not json'' then
        Inl (JSONDecodeError
               ''Expecting property name enclosed in double quotes: line 1 column 2 (char 1)'')
      else if s = [CHR 0xFF, CHR 0xFE] then
        Inl (UnicodeDecodeError
               ([CHR 0x27] @ ''utf-8'' @ [CHR 0x27] @ '' codec can'' @ [CHR 0x27] @
                ''t decode byte 0xff in position 0: invalid start byte''))
      else Inl (JSONDecodeError ''Expecting value: line 1 column 1 (char 0)''))\<close>

definition sample_env :: env where
  "sample_env =
     \<lparr>json_loads = sample_loads,
      json_dumps = (\<lambda>doc. if has_key doc ''error'' then ''error document'' else ''result document''),
      repr = (\<lambda>v. ''None''),
      host = (\<lambda>tr c. Inr (JStr ''Sketch created successfully: Sketch_MCP_1'')),
      now = 1700000000,
      ctime = ''Tue Nov 14 22:13:20 2023'',
      workspace_comm_dir = ''/ws/mcp_comm''\<rparr>"

definition sample_dir :: string where
  "sample_dir = ''/addin/mcp_comm''"

definition world_of :: "(string \<times> string) list \<Rightarrow> world" where
  "world_of fs = \<lparr>files = map (\<lambda>(n, t). ((sample_dir, n), t)) fs, unwritable = [], trace = []\<rparr>"

definition sketch_text :: string where
  \<open>sketch_text = ''{"command": "create_new_sketch", "params": {}}''\<close>

definition unknown_text :: string where
  \<open>unknown_text = ''{"command": "does_not_exist"}''\<close>

definition sample_install :: install where
  "sample_install =
     \<lparr>getenv_workspace = None, addon_path = ''/opt/addin'',
      abspath = (\<lambda>p. if p = ''/opt/addin/..'' then ''/opt'' else p)\<rparr>"

definition stopped_proc :: proc where
  "stopped_proc =
     \<lparr>server_running = False, server_thread = None, threads = [], alive = [],
      joins = [], waited = 0, shown = []\<rparr>"

definition sample_proc :: proc where
  "sample_proc =
     \<lparr>server_running = True, server_thread = Some 1,
      threads = [(1, ServerThreadFunc), (2, UvicornThread), (3, FileMonitorThread)],
      alive = [1, 2, 3], joins = [], waited = 0, shown = []\<rparr>"

section \<open>The extraction of the correlation id\<close>

lemma split_on_not_Nil: "split_on c s \<noteq> []"
  by (induction s) (auto split: list.splits)

lemma hd_split_on: "hd (split_on c s) = takeWhile (\<lambda>x. x \<noteq> c) s"
  by (induction s) (auto split: list.splits simp: split_on_not_Nil)

lemma split_on_append_sep:
  "c \<notin> set p \<Longrightarrow> split_on c (p @ c # s) = p # split_on c s"
  by (induction p) (auto split: list.splits simp: split_on_not_Nil)

lemma command_id_command_name:
  "command_id (command_name i) = Inr (id_segment i)"
proof -
  have a: "split_on (CHR ''_'') (command_name i) = ''command'' # split_on (CHR ''_'') (i @ ''.json'')"
    using split_on_append_sep [of "CHR ''_''" "''command''" "i @ ''.json''"]
    by (simp add: command_name_def)
  have b: "index (split_on (CHR ''_'') (command_name i)) 1
             = Inr (takeWhile (\<lambda>x. x \<noteq> CHR ''_'') (i @ ''.json''))"
    using split_on_not_Nil [of "CHR ''_''" "i @ ''.json''"] hd_split_on [of "CHR ''_''" "i @ ''.json''"]
    by (cases "split_on (CHR ''_'') (i @ ''.json'')") (auto simp: a index_def)
  have c: "takeWhile (\<lambda>x. x \<noteq> CHR ''.'') (takeWhile (\<lambda>x. x \<noteq> CHR ''_'') (i @ ''.json'')) = id_segment i"
    unfolding id_segment_def by (induction i) auto
  have d: "index (split_on (CHR ''.'') s) 0 = Inr (takeWhile (\<lambda>x. x \<noteq> CHR ''.'') s)" for s
    using split_on_not_Nil [of "CHR ''.''" s] hd_split_on [of "CHR ''.''" s]
    by (cases "split_on (CHR ''.'') s") (auto simp: index_def)
  show ?thesis
    using b by (simp add: command_id_def d c)
qed

lemma id_segment_plain:
  "CHR ''_'' \<notin> set i \<Longrightarrow> CHR ''.'' \<notin> set i \<Longrightarrow> id_segment i = i"
  by (auto simp: id_segment_def)

section \<open>What handling one command file does\<close>

lemma frame_refl: "frame w w"
  by (simp add: frame_def)

lemma frame_trans: "frame w w1 \<Longrightarrow> frame w1 w2 \<Longrightarrow> frame w w2"
  by (auto simp: frame_def)

lemma framed_return: "framed (io_return x)"
  by (simp add: framed_def io_return_def frame_refl)

lemma framed_lift: "framed (io_lift r)"
  by (simp add: framed_def io_lift_def frame_refl)

lemma framed_bind: "framed m \<Longrightarrow> (\<And>x. framed (f x)) \<Longrightarrow> framed (io_bind m f)"
  unfolding framed_def io_bind_def
proof (intro allI)
  fix w
  assume m: "\<forall>w. frame w (snd (m w))" and f: "\<And>x. \<forall>w. frame w (snd (f x w))"
  obtain r w1 where mw: "m w = (r, w1)" by (cases "m w")
  from m have f1: "frame w w1" using mw by (metis snd_conv)
  show "frame w (snd (case m w of (Inl e, w') \<Rightarrow> (Inl e, w') | (Inr x, w') \<Rightarrow> f x w'))"
  proof (cases r)
    case (Inl e)
    then show ?thesis using mw f1 by simp
  next
    case (Inr x)
    then show ?thesis using mw f1 f [of x] frame_trans by auto
  qed
qed

lemma framed_except: "framed m \<Longrightarrow> (\<And>e. framed (h e)) \<Longrightarrow> framed (io_except P m h)"
  unfolding framed_def io_except_def
proof (intro allI)
  fix w
  assume m: "\<forall>w. frame w (snd (m w))" and h: "\<And>e. \<forall>w. frame w (snd (h e w))"
  obtain r w1 where mw: "m w = (r, w1)" by (cases "m w")
  from m have f1: "frame w w1" using mw by (metis snd_conv)
  show "frame w (snd (case m w of (Inl e, w') \<Rightarrow> if P e then h e w' else (Inl e, w') | (Inr x, w') \<Rightarrow> (Inr x, w')))"
  proof (cases r)
    case (Inl e)
    then show ?thesis using mw f1 h [of e] frame_trans by auto
  next
    case (Inr x)
    then show ?thesis using mw f1 by simp
  qed
qed

lemma framed_call: "framed (call_host E c)"
  by (simp add: framed_def call_host_def frame_def)

lemma framed_append: "framed (append_file (d, ''command_message_debug.txt'') t)"
  by (auto simp: framed_def append_file_def frame_def update_conv')

lemma framed_handle_command: "framed (handle_command E command params)"
  unfolding handle_command_def message_box_def create_parameter_def read_resource_def get_prompt_def Let_def
  by (intro framed_return framed_lift framed_bind framed_except framed_call framed_append
        conjI impI allI | simp only: if_split)+


lemma handle_frame: "handle_command E c p w = (r, w1) \<Longrightarrow> frame w w1"
  using framed_handle_command [of E c p] by (auto simp: framed_def dest: spec [of _ w])

lemma io_bind_cases:
  assumes "io_bind m f w = (r, w')"
  shows "(\<exists>e. m w = (Inl e, w') \<and> r = Inl e) \<or> (\<exists>x w1. m w = (Inr x, w1) \<and> f x w1 = (r, w'))"
  using assms by (auto simp: io_bind_def split: prod.splits sum.splits)

lemma write_json_fail: "write_json E p doc w = (Inl e, w') \<Longrightarrow> w' = w"
  by (auto simp: write_json_def split: if_splits)

lemma os_rename_fail: "os_rename a b w = (Inl e, w') \<Longrightarrow> w' = w"
  by (auto simp: os_rename_def split: if_splits option.splits)

lemma bind_lift:
  "io_bind (io_lift r) f w = (case r of Inl e \<Rightarrow> (Inl e, w) | Inr x \<Rightarrow> f x w)"
  by (simp add: io_bind_def io_lift_def split: sum.splits)

lemma bind_read:
  "io_bind (read_file p) f w =
     (case map_of (files w) p of
        None \<Rightarrow> (Inl (OSError ''No such file or directory''), w)
      | Some t \<Rightarrow> f t w)"
  by (simp add: io_bind_def read_file_def split: option.splits)

lemma body_cases:
  assumes "dispatch_body E cf pf rf w = (r, w')"
  shows "(\<exists>e. r = Inl e \<and> frame w w') \<or>
         (\<exists>w1 w2 res. frame w w1 \<and> write_json E rf (JObj [(''result'', res)]) w1 = (Inr (), w2) \<and>
                       os_rename cf pf w2 = (r, w'))"
proof -
  let ?tail = "\<lambda>command params. io_bind (handle_command E command params) (\<lambda>result.
     io_bind (write_json E rf (JObj [(''result'', result)])) (\<lambda>_. os_rename cf pf))"
  have tail: "?thesis" if t: "?tail c p w = (r, w')" for c p
  proof -
    from io_bind_cases [OF t] consider
        e where "handle_command E c p w = (Inl e, w')" "r = Inl e"
      | res w1 where "handle_command E c p w = (Inr res, w1)"
          "io_bind (write_json E rf (JObj [(''result'', res)])) (\<lambda>_. os_rename cf pf) w1 = (r, w')"
      by blast
    then show ?thesis
    proof cases
      case 1
      then show ?thesis using handle_frame by blast
    next
      case 2
      from io_bind_cases [OF 2(2)] consider
          e where "write_json E rf (JObj [(''result'', res)]) w1 = (Inl e, w')" "r = Inl e"
        | w2 where "write_json E rf (JObj [(''result'', res)]) w1 = (Inr (), w2)"
            "os_rename cf pf w2 = (r, w')"
        by auto
      then show ?thesis
      proof cases
        case 1
        then show ?thesis using handle_frame [OF 2(1)] write_json_fail by blast
      next
        case 2
        then show ?thesis using handle_frame [OF \<open>handle_command E c p w = (Inr res, w1)\<close>] by blast
      qed
    qed
  qed
  show ?thesis
    using assms tail
    by (auto simp: dispatch_body_def bind_read bind_lift frame_refl
          split: option.splits sum.splits)
qed


lemma os_rename_not_json: "os_rename a b w = (Inl e, w') \<Longrightarrow> \<not> is_JSONDecodeError e"
  by (auto simp: os_rename_def split: if_splits option.splits)

lemma dispatch_cases:
  assumes "dispatch_file E cf pf rf w = (r, w')"
  shows "(\<exists>w1. frame w w1 \<and>
            ((\<exists>e. r = Inl e \<and> w' = w1) \<or> (\<exists>m. write_json E rf (error_doc m) w1 = (r, w')))) \<or>
         (\<exists>w1 w2 res. frame w w1 \<and> write_json E rf (result_doc res) w1 = (Inr (), w2) \<and>
            ((\<exists>e. r = Inl e \<and> w' = w2) \<or> (r = Inr () \<and> os_rename cf pf w2 = (Inr (), w'))))"
proof -
  obtain rb wb where b: "dispatch_body E cf pf rf w = (rb, wb)"
    by (cases "dispatch_body E cf pf rf w")
  from body_cases [OF b] consider
      e where "rb = Inl e" "frame w wb"
    | w1 w2 res where "frame w w1" "write_json E rf (result_doc res) w1 = (Inr (), w2)"
        "os_rename cf pf w2 = (rb, wb)"
    unfolding result_doc_def by blast
  then show ?thesis
  proof cases
    case 1
    then show ?thesis using assms b
      by (auto simp: dispatch_file_def io_except_def split: if_splits)
  next
    case 2
    show ?thesis
    proof (cases rb)
      case (Inl e)
      with 2 have "wb = w2" "\<not> is_JSONDecodeError e"
        using os_rename_fail os_rename_not_json by blast+
      with Inl assms b have "r = Inl e" "w' = w2"
        by (auto simp: dispatch_file_def io_except_def)
      with 2 show ?thesis by blast
    next
      case (Inr u)
      with assms b have "r = Inr ()" "w' = wb"
        by (auto simp: dispatch_file_def io_except_def)
      moreover from this 2 Inr have "os_rename cf pf w2 = (Inr (), w')" by simp
      ultimately show ?thesis using 2 by blast
    qed
  qed
qed

lemma process_unfold:
  assumes "command_id file = Inr cid"
  shows "process_command_file E d file w =
     (if path_exists w (d, processed_name cid) \<or> path_exists w (d, response_name cid) then (Inr (), w)
      else (case dispatch_file E (d, file) (d, processed_name cid) (d, response_name cid) w of
              (Inr u, w1) \<Rightarrow> (Inr (), w1)
            | (Inl e, w1) \<Rightarrow> (Inr (), snd (write_json E (d, response_name cid) (error_doc (str_exn e)) w1))))"
  using assms
  by (auto simp: process_command_file_def io_except_def io_bind_def io_lift_def io_return_def
        split: prod.splits sum.splits)


lemma write_json_ok:
  assumes "write_json E p doc w = (Inr (), w')"
  shows "trace w' = trace w @ [Wrote p doc]" "unwritable w' = unwritable w"
    "p \<notin> set (unwritable w)" "files w' = AList.update p (json_dumps E doc) (files w)"
  using assms by (auto simp: write_json_def split: if_splits)

lemma os_rename_ok:
  assumes "os_rename a b w = (Inr (), w')"
  shows "trace w' = trace w @ [Renamed a b]" "unwritable w' = unwritable w"
    "\<exists>t. map_of (files w) a = Some t \<and> files w' = AList.update b t (AList.delete a (files w))"
  using assms by (auto simp: os_rename_def split: if_splits option.splits)

lemma snd_write_json:
  "snd (write_json E p doc w) = w \<or> write_json E p doc w = (Inr (), snd (write_json E p doc w))"
  by (auto simp: write_json_def)

lemma process_summary:
  assumes p: "process_command_file E d file w = (r, w')" and c: "command_id file = Inr cid"
  shows "r = Inr () \<and> unwritable w' = unwritable w \<and>
         (\<exists>hs ws. trace w' = trace w @ hs @ ws \<and> list_all is_quiet hs \<and>
                   closing (d, file) (d, processed_name cid) (d, response_name cid) ws)"
proof (cases "path_exists w (d, processed_name cid) \<or> path_exists w (d, response_name cid)")
  case True
  then have "r = Inr ()" "w' = w" using p by (simp_all add: process_unfold [OF c])
  then show ?thesis by (auto simp: closing_def)
next
  case False
  let ?cf = "(d, file)" and ?pf = "(d, processed_name cid)" and ?rf = "(d, response_name cid)"
  obtain rd wd where dd: "dispatch_file E ?cf ?pf ?rf w = (rd, wd)"
    by (cases "dispatch_file E ?cf ?pf ?rf w")
  have r: "r = Inr ()" using p False dd by (auto simp: process_unfold [OF c] split: sum.splits)
  have fin: "(\<exists>u. rd = Inr u \<and> w' = wd) \<or>
             (\<exists>e. rd = Inl e \<and> (w' = wd \<or> write_json E ?rf (error_doc (str_exn e)) wd = (Inr (), w')))"
    using p False dd snd_write_json [of E ?rf _ wd]
    by (auto simp: process_unfold [OF c] split: sum.splits)
  from dispatch_cases [OF dd] consider
      w1 e where "frame w w1" "rd = Inl e" "wd = w1"
    | w1 m where "frame w w1" "write_json E ?rf (error_doc m) w1 = (rd, wd)"
    | w1 w2 res e where "frame w w1" "write_json E ?rf (result_doc res) w1 = (Inr (), w2)" "rd = Inl e" "wd = w2"
    | w1 w2 res where "frame w w1" "write_json E ?rf (result_doc res) w1 = (Inr (), w2)" "rd = Inr ()"
        "os_rename ?cf ?pf w2 = (Inr (), wd)"
    by blast
  then have "unwritable w' = unwritable w \<and>
         (\<exists>hs ws. trace w' = trace w @ hs @ ws \<and> list_all is_quiet hs \<and> closing ?cf ?pf ?rf ws)"
  proof cases
    case 1
    then obtain hs where hs: "trace w1 = trace w @ hs" "list_all is_quiet hs" "unwritable w1 = unwritable w"
      by (auto simp: frame_def)
    from fin 1 have "w' = w1 \<or> write_json E ?rf (error_doc (str_exn e)) w1 = (Inr (), w')" by auto
    then show ?thesis
    proof
      assume "w' = w1"
      with hs show ?thesis by (intro conjI exI [of _ hs] exI [of _ "[]"]) (auto simp: closing_def)
    next
      assume "write_json E ?rf (error_doc (str_exn e)) w1 = (Inr (), w')"
      from write_json_ok [OF this] hs show ?thesis
        by (intro conjI exI [of _ hs] exI [of _ "[Wrote ?rf (error_doc (str_exn e))]"]) (auto simp: closing_def)
    qed
  next
    case 2
    then obtain hs where hs: "trace w1 = trace w @ hs" "list_all is_quiet hs" "unwritable w1 = unwritable w"
      by (auto simp: frame_def)
    show ?thesis
    proof (cases rd)
      case (Inl e)
      with 2 have wd: "wd = w1" using write_json_fail by blast
      from fin Inl wd have "w' = w1 \<or> write_json E ?rf (error_doc (str_exn e)) w1 = (Inr (), w')" by auto
      then show ?thesis
      proof
        assume "w' = w1"
        with hs show ?thesis by (intro conjI exI [of _ hs] exI [of _ "[]"]) (auto simp: closing_def)
      next
        assume "write_json E ?rf (error_doc (str_exn e)) w1 = (Inr (), w')"
        from write_json_ok [OF this] hs show ?thesis
          by (intro conjI exI [of _ hs] exI [of _ "[Wrote ?rf (error_doc (str_exn e))]"]) (auto simp: closing_def)
      qed
    next
      case (Inr u)
      with 2 fin have "write_json E ?rf (error_doc m) w1 = (Inr (), w')" by auto
      from write_json_ok [OF this] hs show ?thesis
        by (intro conjI exI [of _ hs] exI [of _ "[Wrote ?rf (error_doc m)]"]) (auto simp: closing_def)
    qed
  next
    case 3
    then obtain hs where hs: "trace w1 = trace w @ hs" "list_all is_quiet hs" "unwritable w1 = unwritable w"
      by (auto simp: frame_def)
    note w2 = write_json_ok [OF 3(2)]
    from fin 3 have "w' = w2 \<or> write_json E ?rf (error_doc (str_exn e)) w2 = (Inr (), w')" by auto
    then show ?thesis
    proof
      assume "w' = w2"
      with hs w2 show ?thesis
        by (intro conjI exI [of _ hs] exI [of _ "[Wrote ?rf (result_doc res)]"]) (auto simp: closing_def)
    next
      assume "write_json E ?rf (error_doc (str_exn e)) w2 = (Inr (), w')"
      from write_json_ok [OF this] hs w2 show ?thesis
        by (intro conjI exI [of _ hs]
              exI [of _ "[Wrote ?rf (result_doc res), Wrote ?rf (error_doc (str_exn e))]"])
           (auto simp: closing_def)
    qed
  next
    case 4
    then obtain hs where hs: "trace w1 = trace w @ hs" "list_all is_quiet hs" "unwritable w1 = unwritable w"
      by (auto simp: frame_def)
    note w2 = write_json_ok [OF 4(2)]
    note w3 = os_rename_ok [OF 4(4)]
    from fin 4 have "w' = wd" by auto
    with hs w2 w3 show ?thesis
      by (intro conjI exI [of _ hs] exI [of _ "[Wrote ?rf (result_doc res), Renamed ?cf ?pf]"])
         (auto simp: closing_def)
  qed
  with r show ?thesis by simp
qed


lemma write_json_writable:
  "p \<notin> set (unwritable w) \<Longrightarrow>
     write_json E p doc w =
       (Inr (), w\<lparr>files := AList.update p (json_dumps E doc) (files w), trace := trace w @ [Wrote p doc]\<rparr>)"
  by (simp add: write_json_def)

lemma path_exists_written:
  "write_json E p doc w = (Inr (), w') \<Longrightarrow> path_exists w' p"
  by (auto simp: write_json_def path_exists_def update_conv' split: if_splits)

lemma path_exists_renamed:
  "os_rename a b w = (Inr (), w') \<Longrightarrow> p \<noteq> a \<Longrightarrow> path_exists w p \<Longrightarrow> path_exists w' p"
  by (auto simp: os_rename_def path_exists_def update_conv' delete_conv' split: if_splits option.splits)


lemma process_leaves_response:
  assumes p: "process_command_file E d file w = (r, w')" and c: "command_id file = Inr cid"
    and wr: "(d, response_name cid) \<notin> set (unwritable w)" and ne: "file \<noteq> response_name cid"
    and ns: "\<not> (path_exists w (d, processed_name cid) \<or> path_exists w (d, response_name cid))"
  shows "path_exists w' (d, response_name cid)"
proof -
  let ?cf = "(d, file)" and ?pf = "(d, processed_name cid)" and ?rf = "(d, response_name cid)"
  obtain rd wd where dd: "dispatch_file E ?cf ?pf ?rf w = (rd, wd)"
    by (cases "dispatch_file E ?cf ?pf ?rf w")
  have fin: "(\<exists>u. rd = Inr u \<and> w' = wd) \<or>
             (\<exists>e. rd = Inl e \<and> w' = snd (write_json E ?rf (error_doc (str_exn e)) wd))"
    using p ns dd by (auto simp: process_unfold [OF c] split: sum.splits)
  have ok: "path_exists (snd (write_json E ?rf doc v)) ?rf" if "unwritable v = unwritable w" for doc v
    using that wr path_exists_written [of E ?rf doc v] write_json_writable [of ?rf v E doc] by simp
  from dispatch_cases [OF dd] consider
      w1 e where "frame w w1" "rd = Inl e" "wd = w1"
    | w1 m where "frame w w1" "write_json E ?rf (error_doc m) w1 = (rd, wd)"
    | w1 w2 res e where "frame w w1" "write_json E ?rf (result_doc res) w1 = (Inr (), w2)" "rd = Inl e" "wd = w2"
    | w1 w2 res where "frame w w1" "write_json E ?rf (result_doc res) w1 = (Inr (), w2)" "rd = Inr ()"
        "os_rename ?cf ?pf w2 = (Inr (), wd)"
    by blast
  then show ?thesis
  proof cases
    case 1
    then have "unwritable w1 = unwritable w" by (simp add: frame_def)
    with 1 fin ok show ?thesis by auto
  next
    case 2
    then have u: "unwritable w1 = unwritable w" by (simp add: frame_def)
    with 2 wr have "rd = Inr ()" "path_exists wd ?rf"
      using write_json_writable [of ?rf w1 E "error_doc m"] ok [OF u, of "error_doc m"] by auto
    with fin show ?thesis by auto
  next
    case 3
    then have "unwritable w2 = unwritable w" using write_json_ok(2) [OF 3(2)] by (simp add: frame_def)
    with 3 fin ok show ?thesis by auto
  next
    case 4
    have "path_exists w2 ?rf" using path_exists_written [OF 4(2)] .
    then have "path_exists wd ?rf" using path_exists_renamed [OF 4(4)] ne by simp
    with 4 fin show ?thesis by auto
  qed
qed

lemma command_not_response: "command_name i \<noteq> response_name c"
  by (simp add: command_name_def response_name_def)

lemma handled_after_processing:
  assumes wr: "(d, response_name (id_segment i)) \<notin> set (unwritable w)"
  shows "path_exists (snd (process_command_file E d (command_name i) w)) (d, processed_name (id_segment i)) \<or>
         path_exists (snd (process_command_file E d (command_name i) w)) (d, response_name (id_segment i))"
proof (cases "path_exists w (d, processed_name (id_segment i)) \<or> path_exists w (d, response_name (id_segment i))")
  case True
  then show ?thesis by (simp add: process_unfold [OF command_id_command_name])
next
  case False
  obtain r w' where p: "process_command_file E d (command_name i) w = (r, w')"
    by (cases "process_command_file E d (command_name i) w")
  from process_leaves_response [OF p command_id_command_name wr command_not_response False]
  show ?thesis using p by simp
qed

lemma path_exists_reintroduce:
  "path_exists (reintroduce p t w) q = (q = p \<or> path_exists w q)"
  by (auto simp: reintroduce_def path_exists_def update_conv')





lemma guard_gives_id: "startswith file ''command_'' \<Longrightarrow> \<exists>cid. command_id file = Inr cid"
proof -
  assume "startswith file ''command_''"
  then have "take (length ''command_'') file = ''command_''"
    by (simp only: startswith_def)
  then have "file = ''command_'' @ drop (length ''command_'') file"
    by (metis append_take_drop_id)
  then obtain t where t: "file = ''command_'' @ t" by blast
  have a: "split_on (CHR ''_'') file = ''command'' # split_on (CHR ''_'') t"
    using split_on_append_sep [of "CHR ''_''" "''command''" t] by (simp add: t)
  obtain x xs where x: "split_on (CHR ''_'') t = x # xs"
    using split_on_not_Nil [of "CHR ''_''" t] by (cases "split_on (CHR ''_'') t") auto
  obtain y ys where y: "split_on (CHR ''.'') x = y # ys"
    using split_on_not_Nil [of "CHR ''.''" x] by (cases "split_on (CHR ''.'') x") auto
  show ?thesis by (simp add: command_id_def index_def a x y)
qed

lemma closing_response_ok: "closing cf pf rf ws \<Longrightarrow> list_all response_ok ws"
  by (auto simp: closing_def result_doc_def error_doc_def)

lemma quiet_response_ok: "list_all is_quiet hs \<Longrightarrow> list_all response_ok hs"
proof (induction hs)
  case Nil
  then show ?case by simp
next
  case (Cons e hs)
  then show ?case by (cases e) auto
qed

lemma process_files_responses:
  "process_files E d fs w = (r, w') \<Longrightarrow> \<exists>es. trace w' = trace w @ es \<and> list_all response_ok es"
proof (induction fs arbitrary: w)
  case Nil
  then show ?case by (simp add: io_return_def)
next
  case (Cons f fs)
  let ?step = "if startswith f ''command_'' \<and> endswith f ''.json''
               then process_command_file E d f else io_return ()"
  obtain r1 w1 where s: "?step w = (r1, w1)" by (cases "?step w")
  have one: "r1 = Inr () \<and> (\<exists>es. trace w1 = trace w @ es \<and> list_all response_ok es)"
  proof (cases "startswith f ''command_'' \<and> endswith f ''.json''")
    case True
    then obtain cid where c: "command_id f = Inr cid" using guard_gives_id by blast
    from True s have "process_command_file E d f w = (r1, w1)" by simp
    from process_summary [OF this c] obtain hs ws where
      h: "r1 = Inr ()" "trace w1 = trace w @ hs @ ws" "list_all is_quiet hs"
         "closing (d, f) (d, processed_name cid) (d, response_name cid) ws"
      by blast
    then have "list_all response_ok (hs @ ws)"
      using quiet_response_ok closing_response_ok by auto
    with h show ?thesis by auto
  next
    case False
    with s show ?thesis by (auto simp: io_return_def)
  qed
  then obtain es1 where e1: "r1 = Inr ()" "trace w1 = trace w @ es1" "list_all response_ok es1" by blast
  from Cons.prems s e1 have "process_files E d fs w1 = (r, w')"
    by (simp add: io_bind_def)
  from Cons.IH [OF this] obtain es2 where "trace w' = trace w1 @ es2" "list_all response_ok es2" by blast
  with e1 show ?case by (intro exI [of _ "es1 @ es2"]) simp
qed











section \<open>The claims\<close>

text \<open>
  Claim C2, amended. The check for a tombstone or a response uses the id the
  poller extracts from the file name (\<open>id_segment\<close>), which is the id
  itself when the id has no underscore and no dot. When the tombstone or the
  response for that id exists, handling the file changes nothing: no handler
  is called, no file is written or renamed. And when the response can be
  written, a command file put back after it has been handled is skipped.
\<close>

theorem dedup_guard_skips:
  "(path_exists w (d, processed_name (id_segment i)) \<or> path_exists w (d, response_name (id_segment i))
      \<longrightarrow> process_command_file E d (command_name i) w = (Inr (), w)) \<and>
   ((d, response_name (id_segment i)) \<notin> set (unwritable w) \<longrightarrow>
      (let w1 = reintroduce (d, command_name i) text (snd (process_command_file E d (command_name i) w))
       in process_command_file E d (command_name i) w1 = (Inr (), w1))) \<and>
   (CHR ''_'' \<notin> set i \<and> CHR ''.'' \<notin> set i \<longrightarrow> id_segment i = i)"
proof (intro conjI impI)
  assume "path_exists w (d, processed_name (id_segment i)) \<or> path_exists w (d, response_name (id_segment i))"
  then show "process_command_file E d (command_name i) w = (Inr (), w)"
    by (simp add: process_unfold [OF command_id_command_name])
next
  assume "(d, response_name (id_segment i)) \<notin> set (unwritable w)"
  from handled_after_processing [OF this, of E]
  show "let w1 = reintroduce (d, command_name i) text (snd (process_command_file E d (command_name i) w))
       in process_command_file E d (command_name i) w1 = (Inr (), w1)"
    by (auto simp: Let_def process_unfold [OF command_id_command_name] path_exists_reintroduce)
next
  assume "CHR ''_'' \<notin> set i \<and> CHR ''.'' \<notin> set i"
  then show "id_segment i = i" by (simp add: id_segment_plain)
qed

theorem dedup_guard_skips_witness:
  "(path_exists (world_of [(''command_1700000000.json'', sketch_text), (''response_1700000000.json'', ''result document'')])
      (sample_dir, response_name (id_segment ''1700000000'')) \<and>
    (sample_dir, response_name (id_segment ''1700000000''))
      \<notin> set (unwritable (world_of [(''command_1700000000.json'', sketch_text)])) \<and>
    CHR ''_'' \<notin> set ''1700000000'' \<and> CHR ''.'' \<notin> set ''1700000000'') \<and>
   process_command_file sample_env sample_dir (command_name ''1700000000'')
      (world_of [(''command_1700000000.json'', sketch_text), (''response_1700000000.json'', ''result document'')])
    = (Inr (), world_of [(''command_1700000000.json'', sketch_text), (''response_1700000000.json'', ''result document'')]) \<and>
   (let w1 = reintroduce (sample_dir, command_name ''1700000000'') sketch_text
               (snd (process_command_file sample_env sample_dir (command_name ''1700000000'')
                      (world_of [(''command_1700000000.json'', sketch_text)])))
    in process_command_file sample_env sample_dir (command_name ''1700000000'') w1 = (Inr (), w1)) \<and>
   id_segment ''1700000000'' = ''1700000000''"
proof -
  let ?i = "''1700000000''"
  let ?w = "world_of [(''command_1700000000.json'', sketch_text), (''response_1700000000.json'', ''result document'')]"
  let ?v = "world_of [(''command_1700000000.json'', sketch_text)]"
  have h: "path_exists ?w (sample_dir, response_name (id_segment ?i)) \<and>
           (sample_dir, response_name (id_segment ?i)) \<notin> set (unwritable ?v) \<and>
           CHR ''_'' \<notin> set ?i \<and> CHR ''.'' \<notin> set ?i"
    by code_simp
  from dedup_guard_skips [of ?w sample_dir ?i sample_env] dedup_guard_skips [of ?v sample_dir ?i sample_env sketch_text] h
  show ?thesis by blast
qed

text \<open>
  The claim as stated fails for an id with an underscore: the tombstone of
  the full id \<^verbatim>\<open>1_2\<close> exists, the poller looks for the one of \<^verbatim>\<open>1\<close>, and
  dispatches the file.
\<close>

theorem dedup_guard_counterexample: "path_exists (world_of [(''command_1_2.json'', sketch_text), (''processed_command_1_2.json'', sketch_text)])
      (sample_dir, processed_name ''1_2'') \<and>
   trace (snd (process_command_file sample_env sample_dir (command_name ''1_2'')
            (world_of [(''command_1_2.json'', sketch_text), (''processed_command_1_2.json'', sketch_text)])))
    = [Called (CreateNewSketch (JStr ''XY'')),
       Wrote (sample_dir, ''response_1.json'') (JObj [(''result'', JStr ''Sketch created successfully: Sketch_MCP_1'')]),
       Renamed (sample_dir, ''command_1_2.json'') (sample_dir, ''processed_command_1.json'')]"
  by code_simp










text \<open>
  Claim C6. Every document written during a scan of a directory, on the
  success path, on the decode failure path and on the path of any other
  exception, has exactly one of the keys \<^verbatim>\<open>result\<close> and \<^verbatim>\<open>error\<close>.
\<close>

theorem exactly_one_of_result_or_error:
  assumes "scan_commands E d w = (r, w')"
  shows "\<exists>es. trace w' = trace w @ es \<and> list_all response_ok es"
  using assms process_files_responses by (simp add: scan_commands_def)

theorem exactly_one_of_result_or_error_witness:
  "trace (snd (scan_commands sample_env sample_dir
                 (world_of [(''command_5.json'', ''{not json''), (''command_7.json'', unknown_text),
                            (''readme.txt'', ''hello'')])))
     = [Wrote (sample_dir, ''response_5.json'')
          (JObj [(''error'', JStr ''Invalid JSON format: Expecting property name enclosed in double quotes: line 1 column 2 (char 1)'')]),
        Wrote (sample_dir, ''response_7.json'') (JObj [(''result'', JStr ''Unknown command: does_not_exist'')]),
        Renamed (sample_dir, ''command_7.json'') (sample_dir, ''processed_command_7.json'')] \<and>
   (\<exists>es. trace (snd (scan_commands sample_env sample_dir
                       (world_of [(''command_5.json'', ''{not json''), (''command_7.json'', unknown_text),
                                  (''readme.txt'', ''hello'')])))
           = trace (world_of [(''command_5.json'', ''{not json''), (''command_7.json'', unknown_text),
                              (''readme.txt'', ''hello'')]) @ es \<and>
         list_all response_ok es)"
proof -
  let ?w = "world_of [(''command_5.json'', ''{not json''), (''command_7.json'', unknown_text), (''readme.txt'', ''hello'')]"
  let ?run = "scan_commands sample_env sample_dir ?w"
  have h: "?run = (fst ?run, snd ?run)" by simp
  have t: "trace (snd ?run)
     = [Wrote (sample_dir, ''response_5.json'')
          (JObj [(''error'', JStr ''Invalid JSON format: Expecting property name enclosed in double quotes: line 1 column 2 (char 1)'')]),
        Wrote (sample_dir, ''response_7.json'') (JObj [(''result'', JStr ''Unknown command: does_not_exist'')]),
        Renamed (sample_dir, ''command_7.json'') (sample_dir, ''processed_command_7.json'')]"
    by code_simp
  from exactly_one_of_result_or_error [OF h] t show ?thesis by blast
qed

text \<open>
  Claim C7, amended. The resolver chooses the override when it is set, not
  empty and an existing directory, else the parent of the add-in directory
  when that exists, else the add-in directory. When \<^verbatim>\<open>mcp_comm\<close> cannot be
  created there it falls back to the add-in directory; when it cannot be
  created there either, the exception of \<^verbatim>\<open>os.makedirs\<close> leaves the
  function. Every pair it returns names a communication directory that
  exists.
\<close>

theorem workspace_resolution:
  "(\<forall>e. getenv_workspace I = Some e \<and> e \<noteq> [] \<and> isdir s e \<longrightarrow> workspace_choice I s = abspath I e) \<and>
   (\<not> (\<exists>e. getenv_workspace I = Some e \<and> e \<noteq> [] \<and> isdir s e) \<longrightarrow>
      workspace_choice I s =
        (if isdir s (abspath I (path_join (addon_path I) ''..''))
         then abspath I (path_join (addon_path I) ''..'') else addon_path I)) \<and>
   fst (get_workspace_paths I s) =
     (if can_make s (path_join (workspace_choice I s) ''mcp_comm'')
      then Inr (workspace_choice I s, path_join (workspace_choice I s) ''mcp_comm'')
      else if can_make s (path_join (addon_path I) ''mcp_comm'')
      then Inr (addon_path I, path_join (addon_path I) ''mcp_comm'')
      else Inl (OSError ''Permission denied'')) \<and>
   (\<forall>ws comm. fst (get_workspace_paths I s) = Inr (ws, comm) \<longrightarrow>
      comm = path_join ws ''mcp_comm'' \<and> isdir (snd (get_workspace_paths I s)) comm)"
proof (intro conjI allI impI)
  fix e
  assume "getenv_workspace I = Some e \<and> e \<noteq> [] \<and> isdir s e"
  then show "workspace_choice I s = abspath I e" by (simp add: workspace_choice_def)
next
  assume "\<not> (\<exists>e. getenv_workspace I = Some e \<and> e \<noteq> [] \<and> isdir s e)"
  then show "workspace_choice I s =
        (if isdir s (abspath I (path_join (addon_path I) ''..''))
         then abspath I (path_join (addon_path I) ''..'') else addon_path I)"
    by (auto simp: workspace_choice_def derived_workspace_def Let_def split: option.splits)
next
  show "fst (get_workspace_paths I s) =
     (if can_make s (path_join (workspace_choice I s) ''mcp_comm'')
      then Inr (workspace_choice I s, path_join (workspace_choice I s) ''mcp_comm'')
      else if can_make s (path_join (addon_path I) ''mcp_comm'')
      then Inr (addon_path I, path_join (addon_path I) ''mcp_comm'')
      else Inl (OSError ''Permission denied''))"
    by (auto simp: get_workspace_paths_def makedirs_def can_make_def Let_def)
next
  fix ws comm
  assume "fst (get_workspace_paths I s) = Inr (ws, comm)"
  then show "comm = path_join ws ''mcp_comm''"
    by (auto simp: get_workspace_paths_def makedirs_def Let_def split: if_splits)
next
  fix ws comm
  assume "fst (get_workspace_paths I s) = Inr (ws, comm)"
  then show "isdir (snd (get_workspace_paths I s)) comm"
    by (auto simp: get_workspace_paths_def makedirs_def isdir_def Let_def split: if_splits)
qed

theorem workspace_resolution_witness:
  "(getenv_workspace (sample_install\<lparr>getenv_workspace := Some ''/home/u/ws''\<rparr>) = Some ''/home/u/ws'' \<and>
    ''/home/u/ws'' \<noteq> [] \<and> isdir \<lparr>dirs = [''/home/u/ws''], uncreatable = []\<rparr> ''/home/u/ws'') \<and>
   workspace_choice (sample_install\<lparr>getenv_workspace := Some ''/home/u/ws''\<rparr>)
     \<lparr>dirs = [''/home/u/ws''], uncreatable = []\<rparr> = ''/home/u/ws'' \<and>
   fst (get_workspace_paths (sample_install\<lparr>getenv_workspace := Some ''/home/u/ws''\<rparr>)
          \<lparr>dirs = [''/home/u/ws''], uncreatable = []\<rparr>) = Inr (''/home/u/ws'', ''/home/u/ws/mcp_comm'') \<and>
   isdir (snd (get_workspace_paths (sample_install\<lparr>getenv_workspace := Some ''/home/u/ws''\<rparr>)
                 \<lparr>dirs = [''/home/u/ws''], uncreatable = []\<rparr>)) ''/home/u/ws/mcp_comm''"
proof -
  let ?I = "sample_install\<lparr>getenv_workspace := Some ''/home/u/ws''\<rparr>"
  let ?s = "\<lparr>dirs = [''/home/u/ws''], uncreatable = []\<rparr>"
  have h: "getenv_workspace ?I = Some ''/home/u/ws'' \<and> ''/home/u/ws'' \<noteq> [] \<and> isdir ?s ''/home/u/ws''"
    by (simp add: isdir_def)
  have a: "abspath ?I ''/home/u/ws'' = ''/home/u/ws''" by (simp add: sample_install_def)
  have r: "fst (get_workspace_paths ?I ?s) = Inr (''/home/u/ws'', ''/home/u/ws/mcp_comm'')" by code_simp
  from workspace_resolution [of ?I ?s] h a r show ?thesis by metis
qed

text \<open>
  The claim as stated fails: where neither communication directory can be
  created, the call raises.
\<close>

theorem workspace_resolution_counterexample:
  "fst (get_workspace_paths sample_install
          \<lparr>dirs = [''/opt'', ''/opt/addin''], uncreatable = [''/opt/mcp_comm'', ''/opt/addin/mcp_comm'']\<rparr>)
     = Inl (OSError ''Permission denied'')"
  by code_simp

text \<open>
  Claim C8, amended. \<^verbatim>\<open>stop_server\<close> changes nothing when the flag is
  already false. Otherwise it sets the flag to false and joins one thread,
  the server thread held in \<^verbatim>\<open>server_thread\<close>, when there is one and it is
  alive, with a timeout of 2 seconds; it blocks for at most those 2 seconds,
  and a thread that has not ended by then stays alive and is left alone. No
  other thread is joined.
\<close>

theorem stop_server_effect:
  "(\<not> server_running p \<longrightarrow> stop_server sched p = p) \<and>
   (server_running p \<longrightarrow>
      \<not> server_running (stop_server sched p) \<and>
      joins (stop_server sched p) =
        joins p @ (case server_thread p of
                     None \<Rightarrow> []
                   | Some t \<Rightarrow> if t \<in> set (alive p) then [(t, 2)] else []) \<and>
      waited (stop_server sched p) \<le> waited p + 2 \<and>
      (\<forall>t. server_thread p = Some t \<and> (sched t = None \<or> (\<exists>x. sched t = Some x \<and> 2 < x)) \<longrightarrow>
           alive (stop_server sched p) = alive p))"
  by (auto simp: stop_server_def join_def Let_def split: option.splits)

theorem stop_server_effect_witness:
  "(\<not> server_running stopped_proc \<and> server_running sample_proc \<and>
    server_thread sample_proc = Some 1 \<and> (\<lambda>t::nat. None :: real option) 1 = None) \<and>
   stop_server (\<lambda>t. None) stopped_proc = stopped_proc \<and>
   \<not> server_running (stop_server (\<lambda>t. None) sample_proc) \<and>
   joins (stop_server (\<lambda>t. None) sample_proc) = [(1, 2)] \<and>
   waited (stop_server (\<lambda>t. None) sample_proc) \<le> 2 \<and>
   alive (stop_server (\<lambda>t. None) sample_proc) = [1, 2, 3]"
proof -
  have h: "\<not> server_running stopped_proc \<and> server_running sample_proc \<and>
           server_thread sample_proc = Some 1 \<and> (\<lambda>t::nat. None :: real option) 1 = None"
    by (simp add: stopped_proc_def sample_proc_def)
  have v: "joins sample_proc = [] \<and> waited sample_proc = 0 \<and> alive sample_proc = [1, 2, 3]"
    by (simp add: sample_proc_def)
  from stop_server_effect [of stopped_proc "\<lambda>t. None"] stop_server_effect [of sample_proc "\<lambda>t. None"] h v
  show ?thesis by simp
qed

text \<open>
  The claim as stated fails: with the file monitor thread alive, the only
  join is the one on the server thread.
\<close>

theorem stop_server_counterexample:
  "server_running sample_proc \<and> (3, FileMonitorThread) \<in> set (threads sample_proc) \<and>
   3 \<in> set (alive sample_proc) \<and>
   joins (stop_server (\<lambda>t. Some 1) sample_proc) = [(1, 2)] \<and>
   alive (stop_server (\<lambda>t. Some 1) sample_proc) = [2, 3]"
  by (simp add: sample_proc_def stop_server_def join_def)



text \<open>
  Claim C10. \<^verbatim>\<open>server_thread_func\<close> assigns \<^verbatim>\<open>server_running = False\<close> in
  its own frame. So once \<^verbatim>\<open>start_server\<close> has returned \<^verbatim>\<open>True\<close>, a later
  failure of \<^verbatim>\<open>run_mcp_server\<close>, returned as \<^verbatim>\<open>False\<close> or raised, ends
  the server thread and leaves the global flag true.
\<close>

theorem server_thread_failure_keeps_flag:
  assumes "start_server X p = (Inr True, p')" and "server_thread p' = Some t"
    and "outcome = Inr False \<or> outcome = Inl e"
  shows "server_running p' \<and> t \<in> set (alive p') \<and>
         snd (server_thread_func outcome p') = Some False \<and>
         server_running (fst (server_thread_func outcome p')) \<and>
         server_running (run_server_thread t outcome p') \<and>
         t \<notin> set (alive (run_server_thread t outcome p'))"
proof -
  have a: "server_running p' \<and> t \<in> set (alive p')"
    using assms(1,2)
    by (auto simp: start_server_def Let_def run_server_thread_def server_thread_func_def
          split: option.splits if_splits sum.splits)
  have b: "snd (server_thread_func outcome p') = Some False"
    using assms(3) by (auto simp: server_thread_func_def)
  have c: "server_running (fst (server_thread_func outcome p')) = server_running p'"
    by (auto simp: server_thread_func_def split: sum.splits)
  have d: "server_running (run_server_thread t outcome p') = server_running p'"
    by (auto simp: run_server_thread_def server_thread_func_def Let_def split: sum.splits)
  have e: "t \<notin> set (alive (run_server_thread t outcome p'))"
    by (simp add: run_server_thread_def Let_def)
  show ?thesis using a b c d e by simp
qed

theorem server_thread_failure_keeps_flag_witness:
  "(start_server \<lparr>prelude = None, mcp_installed = True, early = None\<rparr> stopped_proc
      = (Inr True, stopped_proc\<lparr>server_running := True, server_thread := Some 1,
                     threads := [(1, ServerThreadFunc)], alive := [1]\<rparr>) \<and>
    (Inr False :: exn + bool) = Inr False) \<and>
   snd (server_thread_func (Inr False)
          (stopped_proc\<lparr>server_running := True, server_thread := Some 1,
             threads := [(1, ServerThreadFunc)], alive := [1]\<rparr>)) = Some False \<and>
   server_running (run_server_thread 1 (Inr False)
          (stopped_proc\<lparr>server_running := True, server_thread := Some 1,
             threads := [(1, ServerThreadFunc)], alive := [1]\<rparr>)) \<and>
   1 \<notin> set (alive (run_server_thread 1 (Inr False)
          (stopped_proc\<lparr>server_running := True, server_thread := Some 1,
             threads := [(1, ServerThreadFunc)], alive := [1]\<rparr>)))"
proof -
  let ?p = "stopped_proc\<lparr>server_running := True, server_thread := Some 1,
              threads := [(1, ServerThreadFunc)], alive := [1]\<rparr>"
  have h1: "start_server \<lparr>prelude = None, mcp_installed = True, early = None\<rparr> stopped_proc = (Inr True, ?p)"
    by (simp add: start_server_def stopped_proc_def fresh_tid_def Let_def)
  have h2: "server_thread ?p = Some 1" by simp
  have h3: "(Inr False :: exn + bool) = Inr False \<or> (Inr False :: exn + bool) = Inl (OSError [])" by simp
  from server_thread_failure_keeps_flag [OF h1 h2 h3] h1 show ?thesis by simp
qed

end
